theory Spec2Isabelle
  imports Main
begin

section \<open>Data model of the AuthForm component\<close>

text \<open>
  The component of \<^verbatim>\<open>src/components/AuthForm.tsx\<close> keeps six pieces of React state.
  A JavaScript string is modelled as a \<^typ>\<open>string\<close>, one \<^typ>\<open>char\<close> per code unit
  (code units above 255 are outside the model), so \<^verbatim>\<open>s.length\<close> is \<^term>\<open>length s\<close>
  and \<^verbatim>\<open>!s\<close> is \<^term>\<open>s = []\<close>.
\<close>

record FormData =
  name :: string
  email :: string
  password :: string
  confirmPassword :: string

text \<open>\<^verbatim>\<open>keyof FormData\<close>: the four names an input of the form can carry.\<close>

datatype field_name = Name | Email | Password | ConfirmPassword

text \<open>\<^verbatim>\<open>Partial<FormData>\<close>: an object in which each of the four keys may be absent.\<close>

type_synonym errs = "field_name \<rightharpoonup> string"

record AuthForm =
  isLogin :: bool
  formData :: FormData
  showPassword :: bool
  showConfirmPassword :: bool
  loading :: bool
  errors :: errs

text \<open>The arguments of the six \<^verbatim>\<open>useState\<close> calls.\<close>

definition initial_state :: AuthForm where
  "initial_state =
     \<lparr>isLogin = True,
      formData = \<lparr>name = [], email = [], password = [], confirmPassword = []\<rparr>,
      showPassword = False, showConfirmPassword = False, loading = False,
      errors = Map.empty\<rparr>"

text \<open>
  JavaScript truthiness of a value that is a string or absent (\<^verbatim>\<open>undefined\<close>,
  \<^verbatim>\<open>null\<close>): only a non-empty string is truthy.
\<close>

definition truthy :: "string option \<Rightarrow> bool" where
  "truthy v = (case v of None \<Rightarrow> False | Some m \<Rightarrow> m \<noteq> [])"

text \<open>
  \<^verbatim>\<open>Object.keys\<close> of an error object. JavaScript lists the keys in the order of their
  insertion, which a map does not record; the list here has a fixed order, and only its
  length and its members are used.
\<close>

definition keys :: "errs \<Rightarrow> field_name list" where
  "keys m = filter (\<lambda>k. m k \<noteq> None) [Name, Email, Password, ConfirmPassword]"

section \<open>The regular expression of the email check\<close>

text \<open>
  \<^verbatim>\<open>/\S+@\S+\.\S+/.test(s)\<close> searches \<open>s\<close> for a match starting at any index.
  The fragment of regular expressions the source uses: a sequence of items, each a
  single-character atom or an atom repeated one or more times.
\<close>

datatype atom = NonSpace | Lit char

datatype item = One atom | Plus atom

text \<open>The code units below 256 that \<^verbatim>\<open>\s\<close> matches: tab, LF, VT, FF, CR, space, NBSP.\<close>

definition is_space :: "char \<Rightarrow> bool" where
  "is_space c = (c \<in> set [CHR 0x09, CHR 0x0A, CHR 0x0B, CHR 0x0C, CHR 0x0D, CHR 0x20, CHR 0xA0])"

fun atom_ok :: "atom \<Rightarrow> char \<Rightarrow> bool" where
  "atom_ok NonSpace c = (\<not> is_space c)"
| "atom_ok (Lit d) c = (c = d)"

text \<open>
  Backtracking match of a pattern at the start of the input: a repeated atom first
  tries to take another character and falls back to continuing with the rest.
\<close>

fun match_here :: "item list \<Rightarrow> string \<Rightarrow> bool" where
  "match_here [] s = True"
| "match_here (One a # r) [] = False"
| "match_here (One a # r) (c # s) = (atom_ok a c \<and> match_here r s)"
| "match_here (Plus a # r) [] = False"
| "match_here (Plus a # r) (c # s) =
     (atom_ok a c \<and> (match_here (Plus a # r) s \<or> match_here r s))"

text \<open>\<^verbatim>\<open>RegExp.prototype.test\<close> without flags: try every start index from the left.\<close>

fun regex_test :: "item list \<Rightarrow> string \<Rightarrow> bool" where
  "regex_test r [] = match_here r []"
| "regex_test r (c # s) = (match_here r (c # s) \<or> regex_test r s)"

definition email_regex :: "item list" where
  "email_regex =
     [Plus NonSpace, One (Lit CHR ''@''), Plus NonSpace, One (Lit CHR ''.''), Plus NonSpace]"

section \<open>validateForm\<close>

text \<open>
  The object \<^verbatim>\<open>newErrors\<close> that \<^verbatim>\<open>validateForm\<close> builds from the mode and the
  field values, assignment by assignment.
\<close>

definition newErrors :: "bool \<Rightarrow> FormData \<Rightarrow> errs" where
  "newErrors lg fd =
     (let e0 = Map.empty;
          e1 = (if email fd = [] then e0(Email \<mapsto> ''Email is required'')
                else if \<not> regex_test email_regex (email fd)
                  then e0(Email \<mapsto> ''Email is invalid'')
                else e0);
          e2 = (if password fd = [] then e1(Password \<mapsto> ''Password is required'')
                else if length (password fd) < 6
                  then e1(Password \<mapsto> ''Password must be at least 6 characters'')
                else e1);
          e3 = (if \<not> lg then
                  (let e21 = (if name fd = [] then e2(Name \<mapsto> ''Name is required'') else e2)
                   in if confirmPassword fd = []
                        then e21(ConfirmPassword \<mapsto> ''Please confirm your password'')
                      else if password fd \<noteq> confirmPassword fd
                        then e21(ConfirmPassword \<mapsto> ''Passwords do not match'')
                      else e21)
                else e2)
      in e3)"

text \<open>\<^verbatim>\<open>setErrors(newErrors)\<close>, then the result \<^verbatim>\<open>Object.keys(newErrors).length === 0\<close>.\<close>

definition validateForm :: "AuthForm \<Rightarrow> AuthForm \<times> bool" where
  "validateForm s =
     (let ne = newErrors (isLogin s) (formData s)
      in (s\<lparr>errors := ne\<rparr>, length (keys ne) = 0))"

section \<open>The collaborators: identity provider and notification sink\<close>

text \<open>
  A value thrown by a collaborator: \<^verbatim>\<open>null\<close> or \<^verbatim>\<open>undefined\<close>, or a value whose
  \<^verbatim>\<open>message\<close> property can be read and may be absent (an \<^verbatim>\<open>Error\<close>, as the
  provider's SDK rejects with). Reading \<^verbatim>\<open>message\<close> of \<^verbatim>\<open>null\<close> or \<^verbatim>\<open>undefined\<close>
  throws a \<^verbatim>\<open>TypeError\<close>, an error object whose message text is the engine's.
\<close>

datatype fault = Nullish | Fault "string option"


text \<open>What awaiting a call yields: the value it returns, or the value it throws.\<close>

datatype 'a outcome = Returns 'a | Throws fault

text \<open>The objects \<^verbatim>\<open>{ user, error }\<close> and \<^verbatim>\<open>{ success, error }\<close>; \<^verbatim>\<open>null\<close> is \<^term>\<open>None\<close>.\<close>

datatype 'u AuthResult = AuthResult (user: "'u option") (error: "string option")

datatype ResetResult = ResetResult (success: bool) (error: "string option")

text \<open>The argument of \<^verbatim>\<open>toast\<close>; a call that omits \<^verbatim>\<open>variant\<close> has \<^term>\<open>None\<close> there.\<close>

record notification =
  title :: string
  description :: "string option"
  variant :: "string option"

text \<open>
  The imports of the component. \<^verbatim>\<open>toast\<close> returns \<^term>\<open>None\<close> when it returns
  normally and the thrown value when it throws.
\<close>

record 'u env =
  signIn :: "string \<Rightarrow> string \<Rightarrow> 'u AuthResult outcome"
  signUp :: "string \<Rightarrow> string \<Rightarrow> string \<Rightarrow> 'u AuthResult outcome"
  resetPassword :: "string \<Rightarrow> ResetResult outcome"
  toast :: "notification \<Rightarrow> fault option"

text \<open>
  What a handler does that is visible outside the state it returns: the calls to the
  collaborators with their arguments, and the calls of \<^verbatim>\<open>setLoading\<close>, in order.
\<close>

datatype event =
    SignIn string string
  | SignUp string string string
  | ResetPassword string
  | Toast notification
  | SetLoading bool

fun is_external :: "event \<Rightarrow> bool" where
  "is_external (SignIn e p) = True"
| "is_external (SignUp e p n) = True"
| "is_external (ResetPassword e) = True"
| "is_external (Toast n) = False"
| "is_external (SetLoading b) = False"

fun is_toast :: "event \<Rightarrow> bool" where
  "is_toast (Toast n) = True"
| "is_toast ev = False"

fun is_setLoading :: "event \<Rightarrow> bool" where
  "is_setLoading (SetLoading b) = True"
| "is_setLoading ev = False"

definition external_calls :: "event list \<Rightarrow> event list" where
  "external_calls t = filter is_external t"

definition toasts :: "event list \<Rightarrow> event list" where
  "toasts t = filter is_toast t"

definition loading_transitions :: "event list \<Rightarrow> event list" where
  "loading_transitions t = filter is_setLoading t"


section \<open>handleSubmit\<close>

text \<open>
  A handler returns the state after it settles, the events in order, and how its promise
  settles: \<^term>\<open>None\<close> when it resolves, the thrown value when it rejects. The handler
  reads \<^verbatim>\<open>isLogin\<close> and \<^verbatim>\<open>formData\<close> from the render it was created in; no other
  handler runs while it is suspended at an \<^verbatim>\<open>await\<close>.
\<close>

type_synonym run = "AuthForm \<times> event list \<times> fault option"

text \<open>The body of \<^verbatim>\<open>try\<close>: one call, chosen by the mode, then one toast.\<close>

definition try_block :: "'u env \<Rightarrow> AuthForm \<Rightarrow> event list \<times> fault option" where
  "try_block ev s =
     (let fd = formData s in
      if isLogin s then
        (case signIn ev (email fd) (password fd) of
           Throws x \<Rightarrow> ([SignIn (email fd) (password fd)], Some x)
         | Returns r \<Rightarrow>
             (let n = (if truthy (AuthResult.error r)
                       then \<lparr>title = ''Login Failed'', description = AuthResult.error r,
                             variant = Some ''destructive''\<rparr>
                       else \<lparr>title = ''Welcome back!'',
                             description = Some ''You have successfully logged in.'',
                             variant = None\<rparr>)
              in ([SignIn (email fd) (password fd), Toast n], toast ev n)))
      else
        (case signUp ev (email fd) (password fd) (name fd) of
           Throws x \<Rightarrow> ([SignUp (email fd) (password fd) (name fd)], Some x)
         | Returns r \<Rightarrow>
             (let n = (if truthy (AuthResult.error r)
                       then \<lparr>title = ''Registration Failed'', description = AuthResult.error r,
                             variant = Some ''destructive''\<rparr>
                       else \<lparr>title = ''Account Created!'',
                             description = Some ''Your account has been created successfully.'',
                             variant = None\<rparr>)
              in ([SignUp (email fd) (password fd) (name fd), Toast n], toast ev n))))"

text \<open>The body of \<^verbatim>\<open>catch\<close>: the thrown value is not used.\<close>

definition fallback_notification :: notification where
  "fallback_notification =
     \<lparr>title = ''Error'', description = Some ''Something went wrong. Please try again.'',
      variant = Some ''destructive''\<rparr>"

definition catch_block :: "'u env \<Rightarrow> event list \<times> fault option" where
  "catch_block ev = ([Toast fallback_notification], toast ev fallback_notification)"

definition handleSubmit :: "'u env \<Rightarrow> AuthForm \<Rightarrow> run" where
  "handleSubmit ev s =
     (let (s1, ok) = validateForm s in
      if \<not> ok then (s1, [], None)
      else
        (let s2 = s1\<lparr>loading := True\<rparr>;
             (t1, r1) = try_block ev s;
             (t2, r2) = (case r1 of None \<Rightarrow> ([], None) | Some x \<Rightarrow> catch_block ev);
             s3 = s2\<lparr>loading := False\<rparr>
         in (s3, [SetLoading True] @ t1 @ t2 @ [SetLoading False], r2)))"

section \<open>handleForgotPassword\<close>

definition handleForgotPassword :: "'u env \<Rightarrow> AuthForm \<Rightarrow> run" where
  "handleForgotPassword ev s =
     (let em = email (formData s) in
      if em = [] then
        (let n = \<lparr>title = ''Email Required'',
                  description = Some ''Please enter your email address first.'',
                  variant = Some ''destructive''\<rparr>
         in (s, [Toast n], toast ev n))
      else
        (case resetPassword ev em of
           Throws x \<Rightarrow> (s, [ResetPassword em], Some x)
         | Returns r \<Rightarrow>
             (let n = (if success r
                       then \<lparr>title = ''Reset Email Sent'',
                             description =
                               Some ''Check your email for password reset instructions.'',
                             variant = None\<rparr>
                       else \<lparr>title = ''Reset Failed'', description = ResetResult.error r,
                             variant = Some ''destructive''\<rparr>)
              in (s, [ResetPassword em, Toast n], toast ev n))))"

section \<open>handleInputChange and toggleForm\<close>

text \<open>Reading and writing the property of \<^verbatim>\<open>formData\<close> that a key names.\<close>

fun get_field :: "field_name \<Rightarrow> FormData \<Rightarrow> string" where
  "get_field Name fd = name fd"
| "get_field Email fd = email fd"
| "get_field Password fd = password fd"
| "get_field ConfirmPassword fd = confirmPassword fd"

fun set_field :: "field_name \<Rightarrow> string \<Rightarrow> FormData \<Rightarrow> FormData" where
  "set_field Name v fd = fd\<lparr>name := v\<rparr>"
| "set_field Email v fd = fd\<lparr>email := v\<rparr>"
| "set_field Password v fd = fd\<lparr>password := v\<rparr>"
| "set_field ConfirmPassword v fd = fd\<lparr>confirmPassword := v\<rparr>"

text \<open>
  \<^verbatim>\<open>setFormData(prev => ({ ...prev, [name]: value }))\<close>, then, when \<^verbatim>\<open>errors[name]\<close>
  is truthy, \<^verbatim>\<open>setErrors(prev => ({ ...prev, [name]: '' }))\<close>.
\<close>

definition handleInputChange :: "field_name \<Rightarrow> string \<Rightarrow> AuthForm \<Rightarrow> AuthForm" where
  "handleInputChange n v s =
     (let s1 = s\<lparr>formData := set_field n v (formData s)\<rparr>
      in if truthy (errors s n) then s1\<lparr>errors := (errors s1)(n \<mapsto> [])\<rparr> else s1)"

definition toggleForm :: "AuthForm \<Rightarrow> AuthForm" where
  "toggleForm s =
     s\<lparr>isLogin := \<not> isLogin s,
       formData := \<lparr>name = [], email = [], password = [], confirmPassword = []\<rparr>,
       errors := Map.empty,
       showPassword := False,
       showConfirmPassword := False\<rparr>"

section \<open>What the rendered form reads from the errors\<close>

text \<open>
  Each input reads its error twice: \<^verbatim>\<open>errors.f ? 'border-rose-300 bg-rose-50/50' : ...\<close>
  in its class, and \<^verbatim>\<open>errors.f && <p>...{errors.f}</p>\<close> below it. The name and
  confirmation inputs are rendered in registration mode only.
\<close>

fun default_border :: "field_name \<Rightarrow> string" where
  "default_border Name = ''border-purple-200''"
| "default_border Email = ''border-blue-200''"
| "default_border Password = ''border-emerald-200''"
| "default_border ConfirmPassword = ''border-amber-200''"

definition border_class :: "errs \<Rightarrow> field_name \<Rightarrow> string" where
  "border_class e f =
     (if truthy (e f) then ''border-rose-300 bg-rose-50/50'' else default_border f)"

definition error_text :: "errs \<Rightarrow> field_name \<Rightarrow> string option" where
  "error_text e f = (if truthy (e f) then e f else None)"

definition rendered_fields :: "bool \<Rightarrow> field_name list" where
  "rendered_fields lg = (if lg then [Email, Password] else [Name, Email, Password, ConfirmPassword])"

definition render_errors :: "AuthForm \<Rightarrow> (field_name \<times> string \<times> string option) list" where
  "render_errors s =
     map (\<lambda>f. (f, border_class (errors s) f, error_text (errors s) f))
       (rendered_fields (isLogin s))"

section \<open>The properties of the specification, as definitions\<close>

text \<open>
  The shape of the specification's email rule: one or more non-space characters, an at
  sign, one or more non-space characters, a dot, one or more non-space characters.
  \<open>has_email_shape\<close> says that the whole string has this shape,
  \<open>contains_email_shape\<close> that some part of it has.
\<close>

definition nonspace_run :: "string \<Rightarrow> bool" where
  "nonspace_run u = (u \<noteq> [] \<and> list_all (\<lambda>c. \<not> is_space c) u)"

definition has_email_shape :: "string \<Rightarrow> bool" where
  "has_email_shape s =
     (\<exists>u v w. nonspace_run u \<and> nonspace_run v \<and> nonspace_run w \<and>
        s = u @ ''@'' @ v @ ''.'' @ w)"

definition contains_email_shape :: "string \<Rightarrow> bool" where
  "contains_email_shape s = (\<exists>p t q. has_email_shape t \<and> s = p @ t @ q)"


text \<open>
  The rules of validation of the specification, one per field, and the message each rule
  gives when it is violated. A rule is active in a mode when the mode checks it: the
  email and password rules always, the name and confirmation rules in registration mode
  only. The email rule comes in two readings: in \<open>rule_ok\<close> and \<open>rule_message\<close>
  some part of the email has the shape, in \<open>rule_ok_stated\<close> the email as a whole has it.
\<close>

definition active_fields :: "bool \<Rightarrow> field_name list" where
  "active_fields lg = (if lg then [Email, Password] else [Email, Password, Name, ConfirmPassword])"

fun rule_ok :: "FormData \<Rightarrow> field_name \<Rightarrow> bool" where
  "rule_ok fd Email = (email fd \<noteq> [] \<and> contains_email_shape (email fd))"
| "rule_ok fd Password = (password fd \<noteq> [] \<and> 6 \<le> length (password fd))"
| "rule_ok fd Name = (name fd \<noteq> [])"
| "rule_ok fd ConfirmPassword = (confirmPassword fd \<noteq> [] \<and> confirmPassword fd = password fd)"

definition rules_satisfied :: "bool \<Rightarrow> FormData \<Rightarrow> bool" where
  "rules_satisfied lg fd = list_all (rule_ok fd) (active_fields lg)"

fun rule_message :: "FormData \<Rightarrow> field_name \<Rightarrow> string option" where
  "rule_message fd Email =
     (if email fd = [] then Some ''Email is required''
      else if \<not> contains_email_shape (email fd) then Some ''Email is invalid''
      else None)"
| "rule_message fd Password =
     (if password fd = [] then Some ''Password is required''
      else if length (password fd) < 6 then Some ''Password must be at least 6 characters''
      else None)"
| "rule_message fd Name = (if name fd = [] then Some ''Name is required'' else None)"
| "rule_message fd ConfirmPassword =
     (if confirmPassword fd = [] then Some ''Please confirm your password''
      else if confirmPassword fd \<noteq> password fd then Some ''Passwords do not match''
      else None)"

fun rule_ok_stated :: "FormData \<Rightarrow> field_name \<Rightarrow> bool" where
  "rule_ok_stated fd Email = (email fd \<noteq> [] \<and> has_email_shape (email fd))"
| "rule_ok_stated fd Password = (password fd \<noteq> [] \<and> 6 \<le> length (password fd))"
| "rule_ok_stated fd Name = (name fd \<noteq> [])"
| "rule_ok_stated fd ConfirmPassword =
     (confirmPassword fd \<noteq> [] \<and> confirmPassword fd = password fd)"

definition rules_stated :: "bool \<Rightarrow> FormData \<Rightarrow> bool" where
  "rules_stated lg fd = list_all (rule_ok_stated fd) (active_fields lg)"

text \<open>
  The call that a submission dispatches, chosen by the mode, with the field values of the
  state; the notifications named by the specification; a notification is positive when it
  is not of the destructive variant.
\<close>

definition auth_call :: "'u env \<Rightarrow> AuthForm \<Rightarrow> 'u AuthResult outcome" where
  "auth_call ev s =
     (if isLogin s then signIn ev (email (formData s)) (password (formData s))
      else signUp ev (email (formData s)) (password (formData s)) (name (formData s)))"

definition auth_event :: "AuthForm \<Rightarrow> event" where
  "auth_event s =
     (if isLogin s then SignIn (email (formData s)) (password (formData s))
      else SignUp (email (formData s)) (password (formData s)) (name (formData s)))"

definition success_notification :: "bool \<Rightarrow> notification" where
  "success_notification lg =
     (if lg then \<lparr>title = ''Welcome back!'',
                  description = Some ''You have successfully logged in.'', variant = None\<rparr>
      else \<lparr>title = ''Account Created!'',
            description = Some ''Your account has been created successfully.'',
            variant = None\<rparr>)"

definition failure_notification :: "bool \<Rightarrow> string \<Rightarrow> notification" where
  "failure_notification lg msg =
     \<lparr>title = (if lg then ''Login Failed'' else ''Registration Failed''),
      description = Some msg, variant = Some ''destructive''\<rparr>"

definition positive :: "notification \<Rightarrow> bool" where
  "positive n = (variant n \<noteq> Some ''destructive'')"

definition email_required_notification :: notification where
  "email_required_notification =
     \<lparr>title = ''Email Required'', description = Some ''Please enter your email address first.'',
      variant = Some ''destructive''\<rparr>"

definition reset_sent_notification :: notification where
  "reset_sent_notification =
     \<lparr>title = ''Reset Email Sent'',
      description = Some ''Check your email for password reset instructions.'',
      variant = None\<rparr>"

definition reset_failed_notification :: "string option \<Rightarrow> notification" where
  "reset_failed_notification msg =
     \<lparr>title = ''Reset Failed'', description = msg, variant = Some ''destructive''\<rparr>"

section \<open>Concrete states and collaborators\<close>

text \<open>
  Two filled forms that pass validation, and four behaviours of the collaborators: all
  calls succeed, all calls return a structured error, all calls throw, and a notification
  sink that throws.
\<close>

definition example_login :: AuthForm where
  "example_login =
     initial_state\<lparr>formData :=
       \<lparr>name = [], email = ''a@b.c'', password = ''secret'', confirmPassword = []\<rparr>\<rparr>"

definition example_register :: AuthForm where
  "example_register =
     initial_state\<lparr>isLogin := False, formData :=
       \<lparr>name = ''Ann'', email = ''a@b.c'', password = ''secret'',
        confirmPassword = ''secret''\<rparr>\<rparr>"

definition accepting_env :: "nat env" where
  "accepting_env =
     \<lparr>signIn = (\<lambda>e p. Returns (AuthResult (Some 1) None)),
      signUp = (\<lambda>e p n. Returns (AuthResult (Some 1) None)),
      resetPassword = (\<lambda>e. Returns (ResetResult True None)),
      toast = (\<lambda>n. None)\<rparr>"

definition rejecting_env :: "nat env" where
  "rejecting_env =
     \<lparr>signIn = (\<lambda>e p. Returns (AuthResult None (Some ''wrong password''))),
      signUp = (\<lambda>e p n. Returns (AuthResult None (Some ''email in use''))),
      resetPassword = (\<lambda>e. Returns (ResetResult False (Some ''user not found''))),
      toast = (\<lambda>n. None)\<rparr>"

definition throwing_env :: "nat env" where
  "throwing_env =
     \<lparr>signIn = (\<lambda>e p. Throws (Fault (Some ''network''))),
      signUp = (\<lambda>e p n. Throws (Fault (Some ''network''))),
      resetPassword = (\<lambda>e. Throws (Fault (Some ''network''))),
      toast = (\<lambda>n. None)\<rparr>"

definition broken_toast_env :: "nat env" where
  "broken_toast_env =
     \<lparr>signIn = (\<lambda>e p. Returns (AuthResult (Some 1) None)),
      signUp = (\<lambda>e p n. Returns (AuthResult (Some 1) None)),
      resetPassword = (\<lambda>e. Returns (ResetResult True None)),
      toast = (\<lambda>n. Some (Fault None))\<rparr>"

section \<open>The pattern search, characterised\<close>

lemma match_here_One:
  "match_here (One a # r) s = (\<exists>c t. s = c # t \<and> atom_ok a c \<and> match_here r t)"
  by (cases s) auto

lemma match_here_Plus:
  "match_here (Plus a # r) s =
     (\<exists>u t. s = u @ t \<and> u \<noteq> [] \<and> list_all (atom_ok a) u \<and> match_here r t)"
proof (induction s)
  case Nil
  then show ?case by simp
next
  case (Cons c s)
  show ?case
  proof
    assume L: "match_here (Plus a # r) (c # s)"
    then have ok: "atom_ok a c" and alt: "match_here (Plus a # r) s \<or> match_here r s"
      by simp_all
    from alt show "\<exists>u t. c # s = u @ t \<and> u \<noteq> [] \<and> list_all (atom_ok a) u \<and> match_here r t"
    proof
      assume "match_here (Plus a # r) s"
      with Cons.IH obtain u t where "s = u @ t" "list_all (atom_ok a) u" "match_here r t"
        by blast
      with ok have "c # s = (c # u) @ t \<and> c # u \<noteq> [] \<and> list_all (atom_ok a) (c # u) \<and> match_here r t"
        by simp
      then show ?thesis by blast
    next
      assume "match_here r s"
      with ok have "c # s = [c] @ s \<and> [c] \<noteq> [] \<and> list_all (atom_ok a) [c] \<and> match_here r s"
        by simp
      then show ?thesis by blast
    qed
  next
    assume "\<exists>u t. c # s = u @ t \<and> u \<noteq> [] \<and> list_all (atom_ok a) u \<and> match_here r t"
    then obtain u t where ut: "c # s = u @ t" "u \<noteq> []" "list_all (atom_ok a) u" "match_here r t"
      by blast
    then obtain u' where u: "u = c # u'" by (cases u) auto
    with ut have s: "s = u' @ t" and ok: "atom_ok a c" and rest: "list_all (atom_ok a) u'"
      by simp_all
    show "match_here (Plus a # r) (c # s)"
    proof (cases "u' = []")
      case True
      with s ut(4) ok show ?thesis by simp
    next
      case False
      with s rest ut(4) Cons.IH have "match_here (Plus a # r) s" by blast
      with ok show ?thesis by simp
    qed
  qed
qed

lemma regex_test_iff: "regex_test r s = (\<exists>p t. s = p @ t \<and> match_here r t)"
proof (induction s)
  case Nil
  then show ?case by simp
next
  case (Cons c s)
  show ?case
  proof
    assume "regex_test r (c # s)"
    then consider "match_here r (c # s)" | "regex_test r s" by auto
    then show "\<exists>p t. c # s = p @ t \<and> match_here r t"
    proof cases
      case 1
      then have "c # s = [] @ (c # s) \<and> match_here r (c # s)" by simp
      then show ?thesis by blast
    next
      case 2
      with Cons.IH obtain p t where "s = p @ t" "match_here r t" by blast
      then have "c # s = (c # p) @ t \<and> match_here r t" by simp
      then show ?thesis by blast
    qed
  next
    assume "\<exists>p t. c # s = p @ t \<and> match_here r t"
    then obtain p t where pt: "c # s = p @ t" "match_here r t" by blast
    show "regex_test r (c # s)"
    proof (cases p)
      case Nil
      with pt(1) have "t = c # s" by simp
      with pt(2) show ?thesis by simp
    next
      case (Cons d p')
      with pt have "s = p' @ t" by simp
      with pt(2) Cons.IH have "regex_test r s" by blast
      then show ?thesis by simp
    qed
  qed
qed

lemma list_all_NonSpace: "list_all (atom_ok NonSpace) u = list_all (\<lambda>c. \<not> is_space c) u"
  by (induction u) auto

lemma match_here_email:
  "match_here email_regex s = (\<exists>t q. has_email_shape t \<and> s = t @ q)"
proof
  assume "match_here email_regex s"
  then obtain u t1 where 1: "s = u @ t1" "u \<noteq> []" "list_all (atom_ok NonSpace) u"
      "match_here [One (Lit CHR ''@''), Plus NonSpace, One (Lit CHR ''.''), Plus NonSpace] t1"
    unfolding email_regex_def match_here_Plus [of NonSpace] by blast
  from 1(4) obtain t2 where 2: "t1 = CHR ''@'' # t2"
      "match_here [Plus NonSpace, One (Lit CHR ''.''), Plus NonSpace] t2"
    unfolding match_here_One by auto
  from 2(2) obtain v t3 where 3: "t2 = v @ t3" "v \<noteq> []" "list_all (atom_ok NonSpace) v"
      "match_here [One (Lit CHR ''.''), Plus NonSpace] t3"
    unfolding match_here_Plus [of NonSpace] by blast
  from 3(4) obtain t4 where 4: "t3 = CHR ''.'' # t4" "match_here [Plus NonSpace] t4"
    unfolding match_here_One by auto
  from 4(2) obtain w q where 5: "t4 = w @ q" "w \<noteq> []" "list_all (atom_ok NonSpace) w"
    unfolding match_here_Plus [of NonSpace] by blast
  have shape: "has_email_shape (u @ ''@'' @ v @ ''.'' @ w)"
    unfolding has_email_shape_def nonspace_run_def
    using 1(2,3) 3(2,3) 5(2,3) by (auto simp: list_all_NonSpace)
  have "s = (u @ ''@'' @ v @ ''.'' @ w) @ q"
    using 1(1) 2(1) 3(1) 4(1) 5(1) by simp
  with shape show "\<exists>t q. has_email_shape t \<and> s = t @ q" by blast
next
  assume "\<exists>t q. has_email_shape t \<and> s = t @ q"
  then obtain u v w q where s: "s = u @ CHR ''@'' # v @ CHR ''.'' # w @ q"
    and u: "u \<noteq> []" "list_all (atom_ok NonSpace) u"
    and v: "v \<noteq> []" "list_all (atom_ok NonSpace) v"
    and w: "w \<noteq> []" "list_all (atom_ok NonSpace) w"
    unfolding has_email_shape_def nonspace_run_def by (auto simp: list_all_NonSpace)
  have 5: "match_here [Plus NonSpace] (w @ q)"
    unfolding match_here_Plus [of NonSpace] using w by auto
  then have 4: "match_here [One (Lit CHR ''.''), Plus NonSpace] (CHR ''.'' # w @ q)"
    by simp
  have 3: "match_here [Plus NonSpace, One (Lit CHR ''.''), Plus NonSpace] (v @ CHR ''.'' # w @ q)"
    unfolding match_here_Plus [of NonSpace] using v 4 by blast
  then have 2: "match_here [One (Lit CHR ''@''), Plus NonSpace, One (Lit CHR ''.''), Plus NonSpace]
      (CHR ''@'' # v @ CHR ''.'' # w @ q)"
    by simp
  show "match_here email_regex s"
    unfolding email_regex_def s match_here_Plus [of NonSpace] using u 2 by blast
qed

lemma regex_test_email: "regex_test email_regex s = contains_email_shape s"
  unfolding regex_test_iff match_here_email contains_email_shape_def by blast

section \<open>validateForm: the rules and the errors\<close>

lemma newErrors_Email:
  "newErrors lg fd Email =
     (if email fd = [] then Some ''Email is required''
      else if \<not> regex_test email_regex (email fd) then Some ''Email is invalid''
      else None)"
  by (simp add: newErrors_def Let_def)

lemma newErrors_Password:
  "newErrors lg fd Password =
     (if password fd = [] then Some ''Password is required''
      else if length (password fd) < 6 then Some ''Password must be at least 6 characters''
      else None)"
  by (simp add: newErrors_def Let_def)

lemma newErrors_Name:
  "newErrors lg fd Name = (if \<not> lg \<and> name fd = [] then Some ''Name is required'' else None)"
  by (simp add: newErrors_def Let_def)

lemma newErrors_ConfirmPassword:
  "newErrors lg fd ConfirmPassword =
     (if lg then None
      else if confirmPassword fd = [] then Some ''Please confirm your password''
      else if password fd \<noteq> confirmPassword fd then Some ''Passwords do not match''
      else None)"
  by (simp add: newErrors_def Let_def)

lemmas newErrors_at = newErrors_Email newErrors_Password newErrors_Name newErrors_ConfirmPassword

lemma newErrors_None_iff:
  "(newErrors lg fd f = None) = (f \<in> set (active_fields lg) \<longrightarrow> rule_ok fd f)"
  by (cases f) (auto simp: newErrors_at active_fields_def regex_test_email)

lemma newErrors_message:
  "newErrors lg fd f = (if f \<in> set (active_fields lg) then rule_message fd f else None)"
  by (cases f) (auto simp: newErrors_at active_fields_def regex_test_email)

lemma rule_message_None_iff: "(rule_message fd f = None) = rule_ok fd f"
  by (cases f) auto

lemma keys_empty_iff: "(keys m = []) = (\<forall>f. m f = None)"
proof -
  have "(\<forall>f. m f = None) = (m Name = None \<and> m Email = None \<and> m Password = None \<and> m ConfirmPassword = None)"
    by (metis field_name.exhaust)
  then show ?thesis by (simp add: keys_def)
qed

lemma validateForm_passes:
  "snd (validateForm s) =
     (newErrors (isLogin s) (formData s) Name = None
      \<and> newErrors (isLogin s) (formData s) Email = None
      \<and> newErrors (isLogin s) (formData s) Password = None
      \<and> newErrors (isLogin s) (formData s) ConfirmPassword = None)"
  by (simp add: validateForm_def Let_def keys_def)

lemma validateForm_result:
  "snd (validateForm s) = rules_satisfied (isLogin s) (formData s)"
proof -
  have "snd (validateForm s) = (\<forall>f. newErrors (isLogin s) (formData s) f = None)"
    by (simp add: validateForm_def Let_def keys_empty_iff)
  also have "\<dots> = (\<forall>f \<in> set (active_fields (isLogin s)). rule_ok (formData s) f)"
    by (auto simp: newErrors_None_iff)
  finally show ?thesis by (simp add: rules_satisfied_def list_all_iff)
qed

lemma validateForm_state:
  "fst (validateForm s) = s\<lparr>errors := newErrors (isLogin s) (formData s)\<rparr>"
  by (simp add: validateForm_def Let_def)

lemma has_email_shape_no_space: "has_email_shape s \<Longrightarrow> list_all (\<lambda>c. \<not> is_space c) s"
  by (auto simp: has_email_shape_def nonspace_run_def is_space_def)

lemma has_email_shape_contains: "has_email_shape s \<Longrightarrow> contains_email_shape s"
proof -
  assume "has_email_shape s"
  then have "has_email_shape s \<and> s = [] @ s @ []" by simp
  then show ?thesis unfolding contains_email_shape_def by blast
qed

text \<open>
  C1, as amended. In every state, \<open>validateForm\<close> returns true exactly when every rule
  that is active in the current mode is satisfied, the email rule being that the email is
  not empty and some part of it has the shape. It changes nothing but the errors, which
  it replaces with the freshly computed set whatever they were before: in that set a
  field whose rule is active has the message of its rule, or none when the rule is
  satisfied, and a field whose rule is inactive in the mode has no error.
\<close>

theorem validateForm_iff_rules:
  "snd (validateForm s) = rules_satisfied (isLogin s) (formData s)
   \<and> fst (validateForm s) = s\<lparr>errors := errors (fst (validateForm s))\<rparr>
   \<and> errors (fst (validateForm (s\<lparr>errors := e\<rparr>))) = errors (fst (validateForm s))
   \<and> (\<forall>f. errors (fst (validateForm s)) f
          = (if f \<in> set (active_fields (isLogin s)) then rule_message (formData s) f
             else None))
   \<and> (\<forall>f. (errors (fst (validateForm s)) f = None)
          = (f \<in> set (active_fields (isLogin s)) \<longrightarrow> rule_ok (formData s) f))
   \<and> (\<forall>f. (rule_message (formData s) f = None) = rule_ok (formData s) f)"
proof -
  have 1: "errors (fst (validateForm s)) f
      = (if f \<in> set (active_fields (isLogin s)) then rule_message (formData s) f else None)"
    for f
    using newErrors_message [of "isLogin s" "formData s" f] by (simp add: validateForm_state)
  have 2: "(errors (fst (validateForm s)) f = None)
      = (f \<in> set (active_fields (isLogin s)) \<longrightarrow> rule_ok (formData s) f)" for f
    by (simp add: validateForm_state newErrors_None_iff)
  have 3: "fst (validateForm s) = s\<lparr>errors := errors (fst (validateForm s))\<rparr>"
    "errors (fst (validateForm (s\<lparr>errors := e\<rparr>))) = errors (fst (validateForm s))"
    by (simp_all add: validateForm_state)
  from 1 2 3 validateForm_result [of s] rule_message_None_iff [of "formData s"]
  show ?thesis by blast
qed

theorem validateForm_iff_rules_witness:
  "snd (validateForm (initial_state\<lparr>formData :=
       \<lparr>name = [], email = ''a@b.c'', password = ''secret'', confirmPassword = []\<rparr>,
       errors := [Name \<mapsto> ''Name is required'']\<rparr>))
   \<and> rules_satisfied True
       \<lparr>name = [], email = ''a@b.c'', password = ''secret'', confirmPassword = []\<rparr>
   \<and> errors (fst (validateForm (initial_state\<lparr>formData :=
       \<lparr>name = [], email = ''a@b.c'', password = ''secret'', confirmPassword = []\<rparr>,
       errors := [Name \<mapsto> ''Name is required'']\<rparr>))) Name = None
   \<and> Name \<notin> set (active_fields True)
   \<and> Name \<in> set (active_fields False)
   \<and> \<not> snd (validateForm (initial_state\<lparr>isLogin := False, formData :=
       \<lparr>name = [], email = ''a@b.c'', password = ''secret'', confirmPassword = ''secret''\<rparr>\<rparr>))
   \<and> errors (fst (validateForm (initial_state\<lparr>isLogin := False, formData :=
       \<lparr>name = [], email = ''a@b.c'', password = ''secret'',
        confirmPassword = ''secret''\<rparr>\<rparr>))) Name = Some ''Name is required''"
proof -
  let ?fd = "\<lparr>name = [], email = ''a@b.c'', password = ''secret'', confirmPassword = []\<rparr>"
  let ?s = "initial_state\<lparr>formData := ?fd, errors := [Name \<mapsto> ''Name is required'']\<rparr>"
  let ?t = "initial_state\<lparr>isLogin := False, formData :=
       \<lparr>name = [], email = ''a@b.c'', password = ''secret'', confirmPassword = ''secret''\<rparr>\<rparr>"
  have a: "Name \<notin> set (active_fields True) \<and> Name \<in> set (active_fields False)"
    by (simp add: active_fields_def)
  have s: "isLogin ?s" "formData ?s = ?fd" "snd (validateForm ?s)"
    by (simp_all add: validateForm_passes newErrors_at initial_state_def email_regex_def
        is_space_def)
  have t: "\<not> isLogin ?t" "\<not> snd (validateForm ?t)"
    "rule_message (formData ?t) Name = Some ''Name is required''"
    by (simp_all add: validateForm_passes newErrors_at initial_state_def)
  from validateForm_iff_rules [of ?s] s a
  have 1: "rules_satisfied True ?fd" "errors (fst (validateForm ?s)) Name = None"
    by simp_all
  from validateForm_iff_rules [of ?t] t a
  have 2: "errors (fst (validateForm ?t)) Name = Some ''Name is required''"
    by simp
  from a s(3) t(2) 1 2 show ?thesis by blast
qed

text \<open>
  C1, as stated, fails when the email rule asks the email as a whole to have the shape:
  in login mode, with the email \<open>a b@c.d\<close> and the password \<open>secret\<close>, validation
  returns true although the email rule is not satisfied.
\<close>

theorem validateForm_rules_stated_counterexample:
  "snd (validateForm (initial_state\<lparr>formData :=
       \<lparr>name = [], email = ''a b@c.d'', password = ''secret'', confirmPassword = []\<rparr>\<rparr>))
   \<and> \<not> rules_stated (isLogin initial_state)
       \<lparr>name = [], email = ''a b@c.d'', password = ''secret'', confirmPassword = []\<rparr>"
proof -
  have "\<not> list_all (\<lambda>c. \<not> is_space c) ''a b@c.d''" by (simp add: is_space_def)
  then have "\<not> has_email_shape ''a b@c.d''" using has_email_shape_no_space by blast
  then have "\<not> rules_stated (isLogin initial_state)
       \<lparr>name = [], email = ''a b@c.d'', password = ''secret'', confirmPassword = []\<rparr>"
    by (simp add: rules_stated_def active_fields_def initial_state_def)
  moreover have "snd (validateForm (initial_state\<lparr>formData :=
       \<lparr>name = [], email = ''a b@c.d'', password = ''secret'', confirmPassword = []\<rparr>\<rparr>))"
    by (simp add: validateForm_passes newErrors_at initial_state_def email_regex_def
        is_space_def)
  ultimately show ?thesis by blast
qed

text \<open>
  C2, as amended. After validation the email error is "Email is required" exactly when
  the email is empty; otherwise it is "Email is invalid" exactly when no part of the
  email has the shape (non-space characters, at sign, non-space characters, dot,
  non-space characters), and there is no email error when some part has it. In
  particular an email that has the shape as a whole has no error.
\<close>

theorem validateForm_email_error:
  "errors (fst (validateForm s)) Email =
     (if email (formData s) = [] then Some ''Email is required''
      else if contains_email_shape (email (formData s)) then None
      else Some ''Email is invalid'')
   \<and> (has_email_shape (email (formData s)) \<longrightarrow> errors (fst (validateForm s)) Email = None)"
proof -
  have 1: "errors (fst (validateForm s)) Email =
     (if email (formData s) = [] then Some ''Email is required''
      else if contains_email_shape (email (formData s)) then None
      else Some ''Email is invalid'')"
    by (simp add: validateForm_state newErrors_Email regex_test_email)
  have "has_email_shape (email (formData s)) \<Longrightarrow> email (formData s) \<noteq> []"
    by (auto simp: has_email_shape_def)
  with 1 show ?thesis by (simp add: has_email_shape_contains)
qed

theorem validateForm_email_error_witness:
  "has_email_shape ''a@b.c''
   \<and> errors (fst (validateForm (initial_state\<lparr>formData :=
        \<lparr>name = [], email = ''a@b.c'', password = [], confirmPassword = []\<rparr>\<rparr>))) Email = None"
proof -
  have "nonspace_run ''a'' \<and> nonspace_run ''b'' \<and> nonspace_run ''c''
      \<and> ''a@b.c'' = ''a'' @ ''@'' @ ''b'' @ ''.'' @ ''c''"
    by (simp add: nonspace_run_def is_space_def)
  then have shape: "has_email_shape ''a@b.c''"
    unfolding has_email_shape_def by blast
  with validateForm_email_error [of "initial_state\<lparr>formData :=
        \<lparr>name = [], email = ''a@b.c'', password = [], confirmPassword = []\<rparr>\<rparr>"]
  show ?thesis by (simp add: has_email_shape_contains)
qed

text \<open>
  C2, as stated, fails: the email \<open>a b@c.d\<close> contains a space, so it does not have the
  shape, and yet validation gives it no "Email is invalid" error, because the pattern is
  found in its part \<open>b@c.d\<close>.
\<close>

theorem email_shape_counterexample:
  "\<not> has_email_shape ''a b@c.d''
   \<and> errors (fst (validateForm (initial_state\<lparr>formData :=
        \<lparr>name = [], email = ''a b@c.d'', password = [], confirmPassword = []\<rparr>\<rparr>))) Email
      \<noteq> Some ''Email is invalid''"
proof -
  have "\<not> list_all (\<lambda>c. \<not> is_space c) ''a b@c.d''" by (simp add: is_space_def)
  then have "\<not> has_email_shape ''a b@c.d''" using has_email_shape_no_space by blast
  moreover have "regex_test email_regex ''a b@c.d''" by (simp add: email_regex_def is_space_def)
  ultimately show ?thesis by (simp add: validateForm_state newErrors_Email)
qed

section \<open>handleSubmit: calls, notifications and the loading flag\<close>

lemma try_block_Throws:
  "auth_call ev s = Throws x \<Longrightarrow> try_block ev s = ([auth_event s], Some x)"
  by (simp add: try_block_def auth_call_def auth_event_def Let_def split: if_splits)

lemma try_block_success:
  "auth_call ev s = Returns r \<Longrightarrow> \<not> truthy (AuthResult.error r) \<Longrightarrow>
   try_block ev s = ([auth_event s, Toast (success_notification (isLogin s))],
                      toast ev (success_notification (isLogin s)))"
  by (simp add: try_block_def auth_call_def auth_event_def success_notification_def Let_def
      split: if_splits)

lemma try_block_failure:
  "auth_call ev s = Returns r \<Longrightarrow> AuthResult.error r = Some msg \<Longrightarrow> msg \<noteq> [] \<Longrightarrow>
   try_block ev s = ([auth_event s, Toast (failure_notification (isLogin s) msg)],
                      toast ev (failure_notification (isLogin s) msg))"
  by (simp add: try_block_def auth_call_def auth_event_def failure_notification_def Let_def
      truthy_def split: if_splits)

lemma try_block_calls: "external_calls (fst (try_block ev s)) = [auth_event s]"
  by (simp add: try_block_def auth_event_def external_calls_def Let_def split: outcome.splits)

lemma catch_block_calls: "external_calls (fst (catch_block ev)) = []"
  by (simp add: catch_block_def external_calls_def)

lemma handleSubmit_invalid:
  "\<not> snd (validateForm s) \<Longrightarrow> handleSubmit ev s = (fst (validateForm s), [], None)"
  by (simp add: handleSubmit_def split_beta)

lemma handleSubmit_valid:
  "snd (validateForm s) \<Longrightarrow>
   handleSubmit ev s =
     ((fst (validateForm s))\<lparr>loading := False\<rparr>,
      [SetLoading True] @ fst (try_block ev s)
        @ (case snd (try_block ev s) of None \<Rightarrow> [] | Some x \<Rightarrow> fst (catch_block ev))
        @ [SetLoading False],
      (case snd (try_block ev s) of None \<Rightarrow> None | Some x \<Rightarrow> snd (catch_block ev)))"
  by (simp add: handleSubmit_def split_beta Let_def split: option.splits)

lemma external_calls_Nil: "external_calls [] = []"
  by (simp add: external_calls_def)

lemma external_calls_Cons:
  "external_calls (e # t) = (if is_external e then e # external_calls t else external_calls t)"
  by (simp add: external_calls_def)

lemma external_calls_append: "external_calls (a @ b) = external_calls a @ external_calls b"
  by (simp add: external_calls_def)

lemma toasts_Nil: "toasts [] = []"
  by (simp add: toasts_def)

lemma toasts_Cons: "toasts (e # t) = (if is_toast e then e # toasts t else toasts t)"
  by (simp add: toasts_def)

lemma toasts_append: "toasts (a @ b) = toasts a @ toasts b"
  by (simp add: toasts_def)

lemma loading_transitions_Nil: "loading_transitions [] = []"
  by (simp add: loading_transitions_def)

lemma loading_transitions_Cons:
  "loading_transitions (e # t) =
     (if is_setLoading e then e # loading_transitions t else loading_transitions t)"
  by (simp add: loading_transitions_def)

lemma loading_transitions_append:
  "loading_transitions (a @ b) = loading_transitions a @ loading_transitions b"
  by (simp add: loading_transitions_def)

lemmas trace_simps =
  external_calls_Nil external_calls_Cons external_calls_append
  toasts_Nil toasts_Cons toasts_append
  loading_transitions_Nil loading_transitions_Cons loading_transitions_append

lemma handleSubmit_calls:
  "snd (validateForm s) \<Longrightarrow> external_calls (fst (snd (handleSubmit ev s))) = [auth_event s]"
  by (cases "snd (try_block ev s)")
     (simp_all add: handleSubmit_valid external_calls_append try_block_calls catch_block_calls
        external_calls_Nil external_calls_Cons)

lemma handleSubmit_formData: "formData (fst (handleSubmit ev s)) = formData s"
  by (cases "snd (validateForm s)")
     (simp_all add: handleSubmit_valid handleSubmit_invalid validateForm_state)

lemma handleSubmit_toasts_ok:
  assumes "snd (validateForm s)" and "try_block ev s = ([auth_event s, Toast n], None)"
  shows "toasts (fst (snd (handleSubmit ev s))) = [Toast n]"
  using assms by (simp add: handleSubmit_valid toasts_def auth_event_def)

lemma example_login_valid: "snd (validateForm example_login)"
  by (simp add: validateForm_passes newErrors_at example_login_def initial_state_def
      email_regex_def is_space_def)

lemma example_register_valid: "snd (validateForm example_register)"
  by (simp add: validateForm_passes newErrors_at example_register_def initial_state_def
      email_regex_def is_space_def)

lemma handleSubmit_loading:
  "snd (validateForm s) \<Longrightarrow>
   loading (fst (handleSubmit ev s)) = False
   \<and> loading_transitions (fst (snd (handleSubmit ev s))) = [SetLoading True, SetLoading False]"
proof -
  assume ok: "snd (validateForm s)"
  have t: "loading_transitions (fst (try_block ev s)) = []"
    by (simp add: try_block_def Let_def trace_simps split: outcome.splits)
  have c: "loading_transitions (fst (catch_block ev)) = []"
    by (simp add: catch_block_def trace_simps)
  show ?thesis
    using ok t c by (cases "snd (try_block ev s)") (simp_all add: handleSubmit_valid trace_simps)
qed

lemma handleSubmit_Throws:
  "snd (validateForm s) \<Longrightarrow> auth_call ev s = Throws x \<Longrightarrow>
   fst (snd (handleSubmit ev s)) =
     [SetLoading True, auth_event s, Toast fallback_notification, SetLoading False]
   \<and> snd (snd (handleSubmit ev s)) = toast ev fallback_notification"
  by (simp add: handleSubmit_valid try_block_Throws catch_block_def)

text \<open>
  C3. When validation succeeds, the submission makes exactly one external call: signIn
  with the email and password in login mode, signUp with the email, password and name in
  registration mode. The form fields are as before. When the call returns a result
  without an error, exactly one notification is emitted, the positive one of the mode
  ("Welcome back!" or "Account Created!"); when it returns a result with an error
  message, exactly one notification is emitted, negative and carrying that message.
  The notification sink is taken to return normally.
\<close>

theorem handleSubmit_dispatch:
  "snd (validateForm s) \<longrightarrow>
     external_calls (fst (snd (handleSubmit ev s))) = [auth_event s]
     \<and> formData (fst (handleSubmit ev s)) = formData s
     \<and> (auth_call ev s = Returns r \<and> \<not> truthy (AuthResult.error r)
          \<and> toast ev (success_notification (isLogin s)) = None
        \<longrightarrow> toasts (fst (snd (handleSubmit ev s))) = [Toast (success_notification (isLogin s))]
            \<and> positive (success_notification (isLogin s)))
     \<and> (auth_call ev s = Returns r \<and> AuthResult.error r = Some msg \<and> msg \<noteq> []
          \<and> toast ev (failure_notification (isLogin s) msg) = None
        \<longrightarrow> toasts (fst (snd (handleSubmit ev s))) = [Toast (failure_notification (isLogin s) msg)]
            \<and> \<not> positive (failure_notification (isLogin s) msg)
            \<and> description (failure_notification (isLogin s) msg) = Some msg)"
proof
  assume ok: "snd (validateForm s)"
  have a: "external_calls (fst (snd (handleSubmit ev s))) = [auth_event s]"
    using ok by (rule handleSubmit_calls)
  have b: "formData (fst (handleSubmit ev s)) = formData s"
    by (rule handleSubmit_formData)
  have c: "toasts (fst (snd (handleSubmit ev s))) = [Toast (success_notification (isLogin s))]
            \<and> positive (success_notification (isLogin s))"
    if "auth_call ev s = Returns r" "\<not> truthy (AuthResult.error r)"
       "toast ev (success_notification (isLogin s)) = None"
  proof -
    from that have "try_block ev s = ([auth_event s, Toast (success_notification (isLogin s))], None)"
      by (simp add: try_block_success)
    with ok have "toasts (fst (snd (handleSubmit ev s))) = [Toast (success_notification (isLogin s))]"
      by (rule handleSubmit_toasts_ok)
    then show ?thesis by (simp add: positive_def success_notification_def)
  qed
  have d: "toasts (fst (snd (handleSubmit ev s))) = [Toast (failure_notification (isLogin s) msg)]
            \<and> \<not> positive (failure_notification (isLogin s) msg)
            \<and> description (failure_notification (isLogin s) msg) = Some msg"
    if "auth_call ev s = Returns r" "AuthResult.error r = Some msg" "msg \<noteq> []"
       "toast ev (failure_notification (isLogin s) msg) = None"
  proof -
    from that have "try_block ev s = ([auth_event s, Toast (failure_notification (isLogin s) msg)], None)"
      by (simp add: try_block_failure)
    with ok have "toasts (fst (snd (handleSubmit ev s))) = [Toast (failure_notification (isLogin s) msg)]"
      by (rule handleSubmit_toasts_ok)
    then show ?thesis by (simp add: positive_def failure_notification_def)
  qed
  from a b c d
  show "external_calls (fst (snd (handleSubmit ev s))) = [auth_event s]
     \<and> formData (fst (handleSubmit ev s)) = formData s
     \<and> (auth_call ev s = Returns r \<and> \<not> truthy (AuthResult.error r)
          \<and> toast ev (success_notification (isLogin s)) = None
        \<longrightarrow> toasts (fst (snd (handleSubmit ev s))) = [Toast (success_notification (isLogin s))]
            \<and> positive (success_notification (isLogin s)))
     \<and> (auth_call ev s = Returns r \<and> AuthResult.error r = Some msg \<and> msg \<noteq> []
          \<and> toast ev (failure_notification (isLogin s) msg) = None
        \<longrightarrow> toasts (fst (snd (handleSubmit ev s))) = [Toast (failure_notification (isLogin s) msg)]
            \<and> \<not> positive (failure_notification (isLogin s) msg)
            \<and> description (failure_notification (isLogin s) msg) = Some msg)"
    by blast
qed


theorem handleSubmit_dispatch_witness:
  "snd (validateForm example_login)
   \<and> external_calls (fst (snd (handleSubmit accepting_env example_login)))
       = [SignIn ''a@b.c'' ''secret'']
   \<and> toasts (fst (snd (handleSubmit accepting_env example_login)))
       = [Toast (success_notification True)]
   \<and> title (success_notification True) = ''Welcome back!''
   \<and> snd (validateForm example_register)
   \<and> external_calls (fst (snd (handleSubmit rejecting_env example_register)))
       = [SignUp ''a@b.c'' ''secret'' ''Ann'']
   \<and> toasts (fst (snd (handleSubmit rejecting_env example_register)))
       = [Toast (failure_notification False ''email in use'')]"
proof -
  have 1: "auth_call accepting_env example_login = Returns (AuthResult (Some 1) None)"
    "\<not> truthy (AuthResult.error (AuthResult (Some (1::nat)) None))"
    "toast accepting_env (success_notification (isLogin example_login)) = None"
    "isLogin example_login"
    "auth_event example_login = SignIn ''a@b.c'' ''secret''"
    by (simp_all add: auth_call_def auth_event_def accepting_env_def example_login_def
        initial_state_def truthy_def)
  have 2: "auth_call rejecting_env example_register = Returns (AuthResult None (Some ''email in use''))"
    "AuthResult.error (AuthResult (None :: nat option) (Some ''email in use'')) = Some ''email in use''"
    "toast rejecting_env (failure_notification (isLogin example_register) ''email in use'') = None"
    "\<not> isLogin example_register"
    "auth_event example_register = SignUp ''a@b.c'' ''secret'' ''Ann''"
    by (simp_all add: auth_call_def auth_event_def rejecting_env_def example_register_def
        initial_state_def)
  show ?thesis
    using handleSubmit_dispatch [of example_login accepting_env "AuthResult (Some 1) None" "''x''"]
      handleSubmit_dispatch [of example_register rejecting_env
        "AuthResult None (Some ''email in use'')" "''email in use''"]
      example_login_valid example_register_valid 1 2
    by (simp add: success_notification_def)
qed

text \<open>
  C4. When validation fails, the submission emits no event at all: no external call and
  no call of setLoading; it only replaces the errors and resolves. In particular, in
  login mode with an empty email, whatever the password, the email error is
  "Email is required" and there is no external call.
\<close>

theorem handleSubmit_invalid_noop:
  "(\<not> snd (validateForm s) \<longrightarrow>
      fst (snd (handleSubmit ev s)) = []
      \<and> external_calls (fst (snd (handleSubmit ev s))) = []
      \<and> loading_transitions (fst (snd (handleSubmit ev s))) = []
      \<and> fst (handleSubmit ev s) = s\<lparr>errors := errors (fst (validateForm s))\<rparr>
      \<and> snd (snd (handleSubmit ev s)) = None)
   \<and> (isLogin s \<and> email (formData s) = [] \<longrightarrow>
      errors (fst (handleSubmit ev s)) Email = Some ''Email is required''
      \<and> external_calls (fst (snd (handleSubmit ev s))) = []
      \<and> loading_transitions (fst (snd (handleSubmit ev s))) = [])"
proof -
  have inv: "\<not> snd (validateForm s)" if "email (formData s) = []"
    using that by (simp add: validateForm_passes newErrors_at)
  have err: "errors (fst (validateForm s)) Email = Some ''Email is required''"
    if "email (formData s) = []"
    using that by (simp add: validateForm_state newErrors_Email)
  show ?thesis
    using inv err by (auto simp: handleSubmit_invalid validateForm_state trace_simps)
qed

theorem handleSubmit_invalid_noop_witness:
  "\<not> snd (validateForm (example_login\<lparr>formData := (formData example_login)\<lparr>email := []\<rparr>\<rparr>))
   \<and> isLogin (example_login\<lparr>formData := (formData example_login)\<lparr>email := []\<rparr>\<rparr>)
   \<and> errors (fst (handleSubmit accepting_env
        (example_login\<lparr>formData := (formData example_login)\<lparr>email := []\<rparr>\<rparr>))) Email
       = Some ''Email is required''
   \<and> fst (snd (handleSubmit accepting_env
        (example_login\<lparr>formData := (formData example_login)\<lparr>email := []\<rparr>\<rparr>))) = []"
proof -
  let ?s = "example_login\<lparr>formData := (formData example_login)\<lparr>email := []\<rparr>\<rparr>"
  have 1: "\<not> snd (validateForm ?s)"
    by (simp add: validateForm_passes newErrors_at example_login_def initial_state_def)
  have 2: "isLogin ?s \<and> email (formData ?s) = []"
    by (simp add: example_login_def initial_state_def)
  show ?thesis
    using handleSubmit_invalid_noop [of ?s accepting_env] 1 2 by blast
qed

text \<open>
  C5. Once validation has succeeded, whatever the collaborators do (return a result,
  return an error, throw, and also when the notification sink throws), the loading flag
  is false in the state after the submission settles, setLoading is called with true and
  then with false, and the call with false is the last event. When the external call
  throws, exactly one notification is emitted: the negative one with the message
  "Something went wrong. Please try again.".
\<close>

theorem handleSubmit_always_resets_loading:
  "snd (validateForm s) \<longrightarrow>
     loading (fst (handleSubmit ev s)) = False
     \<and> loading_transitions (fst (snd (handleSubmit ev s))) = [SetLoading True, SetLoading False]
     \<and> last (fst (snd (handleSubmit ev s))) = SetLoading False
     \<and> (auth_call ev s = Throws x \<longrightarrow>
          toasts (fst (snd (handleSubmit ev s))) = [Toast fallback_notification]
          \<and> \<not> positive fallback_notification
          \<and> description fallback_notification = Some ''Something went wrong. Please try again.'')"
proof
  assume ok: "snd (validateForm s)"
  have l: "last (fst (snd (handleSubmit ev s))) = SetLoading False"
    using ok by (simp add: handleSubmit_valid)
  have t: "toasts (fst (snd (handleSubmit ev s))) = [Toast fallback_notification]"
    if "auth_call ev s = Throws x"
    using handleSubmit_Throws [OF ok that] by (simp add: trace_simps auth_event_def)
  have f: "\<not> positive fallback_notification
      \<and> description fallback_notification = Some ''Something went wrong. Please try again.''"
    by (simp add: positive_def fallback_notification_def)
  from handleSubmit_loading [OF ok] l t f
  show "loading (fst (handleSubmit ev s)) = False
     \<and> loading_transitions (fst (snd (handleSubmit ev s))) = [SetLoading True, SetLoading False]
     \<and> last (fst (snd (handleSubmit ev s))) = SetLoading False
     \<and> (auth_call ev s = Throws x \<longrightarrow>
          toasts (fst (snd (handleSubmit ev s))) = [Toast fallback_notification]
          \<and> \<not> positive fallback_notification
          \<and> description fallback_notification = Some ''Something went wrong. Please try again.'')"
    by blast
qed

theorem handleSubmit_always_resets_loading_witness:
  "snd (validateForm example_login)
   \<and> auth_call throwing_env example_login = Throws (Fault (Some ''network''))
   \<and> loading (fst (handleSubmit throwing_env example_login)) = False
   \<and> toasts (fst (snd (handleSubmit throwing_env example_login))) = [Toast fallback_notification]
   \<and> toast broken_toast_env (success_notification True) \<noteq> None
   \<and> toast broken_toast_env fallback_notification \<noteq> None
   \<and> loading (fst (handleSubmit broken_toast_env example_login)) = False
   \<and> last (fst (snd (handleSubmit broken_toast_env example_login))) = SetLoading False"
proof -
  have 1: "auth_call throwing_env example_login = Throws (Fault (Some ''network''))"
    by (simp add: auth_call_def throwing_env_def example_login_def initial_state_def)
  have 2: "toast broken_toast_env (success_notification True) \<noteq> None
      \<and> toast broken_toast_env fallback_notification \<noteq> None"
    by (simp add: broken_toast_env_def)
  show ?thesis
    using handleSubmit_always_resets_loading [of example_login throwing_env "Fault (Some ''network'')"]
      handleSubmit_always_resets_loading [of example_login broken_toast_env "Fault None"]
      example_login_valid 1 2
    by simp
qed

section \<open>handleForgotPassword\<close>

lemma handleForgotPassword_empty:
  "email (formData s) = [] \<Longrightarrow>
   handleForgotPassword ev s =
     (s, [Toast email_required_notification], toast ev email_required_notification)"
  by (simp add: handleForgotPassword_def email_required_notification_def Let_def)

lemma handleForgotPassword_Throws:
  "email (formData s) \<noteq> [] \<Longrightarrow> resetPassword ev (email (formData s)) = Throws x \<Longrightarrow>
   handleForgotPassword ev s = (s, [ResetPassword (email (formData s))], Some x)"
  by (simp add: handleForgotPassword_def Let_def)

lemma handleForgotPassword_Returns:
  "email (formData s) \<noteq> [] \<Longrightarrow> resetPassword ev (email (formData s)) = Returns r \<Longrightarrow>
   handleForgotPassword ev s =
     (s, [ResetPassword (email (formData s)),
          Toast (if success r then reset_sent_notification
                 else reset_failed_notification (ResetResult.error r))],
      toast ev (if success r then reset_sent_notification
                else reset_failed_notification (ResetResult.error r)))"
  by (simp add: handleForgotPassword_def reset_sent_notification_def
      reset_failed_notification_def Let_def)

lemma handleForgotPassword_state: "fst (handleForgotPassword ev s) = s"
  by (simp add: handleForgotPassword_def Let_def split: outcome.splits)

lemma handleForgotPassword_no_loading:
  "loading_transitions (fst (snd (handleForgotPassword ev s))) = []"
  by (simp add: handleForgotPassword_def Let_def trace_simps split: outcome.splits)

lemma handleForgotPassword_email_only:
  "email (formData s') = email (formData s) \<Longrightarrow>
   snd (handleForgotPassword ev s') = snd (handleForgotPassword ev s)"
  by (simp add: handleForgotPassword_def Let_def split: outcome.splits)



text \<open>
  C6. With an empty email, the password reset emits the negative "Email Required"
  notification and makes no external call. With a non-empty email it calls resetPassword
  with the email exactly once; when the call returns success it emits exactly one
  notification, positive, and when it returns failure exactly one, negative, whose
  description is the error of the result. What it emits and how it settles depends on the
  email only, not on the other fields or the mode. It returns the state it was given, and
  never calls setLoading.
\<close>

theorem handleForgotPassword_behaviour:
  "(email (formData s) = [] \<longrightarrow>
      external_calls (fst (snd (handleForgotPassword ev s))) = []
      \<and> toasts (fst (snd (handleForgotPassword ev s))) = [Toast email_required_notification]
      \<and> \<not> positive email_required_notification
      \<and> title email_required_notification = ''Email Required'')
   \<and> (email (formData s) \<noteq> [] \<longrightarrow>
      external_calls (fst (snd (handleForgotPassword ev s)))
        = [ResetPassword (email (formData s))]
      \<and> (resetPassword ev (email (formData s)) = Returns r \<and> success r \<longrightarrow>
           toasts (fst (snd (handleForgotPassword ev s))) = [Toast reset_sent_notification]
           \<and> positive reset_sent_notification)
      \<and> (resetPassword ev (email (formData s)) = Returns r \<and> \<not> success r \<longrightarrow>
           toasts (fst (snd (handleForgotPassword ev s)))
             = [Toast (reset_failed_notification (ResetResult.error r))]
           \<and> \<not> positive (reset_failed_notification (ResetResult.error r))
           \<and> description (reset_failed_notification (ResetResult.error r))
               = ResetResult.error r))
   \<and> (email (formData s') = email (formData s) \<longrightarrow>
        snd (handleForgotPassword ev s') = snd (handleForgotPassword ev s))
   \<and> fst (handleForgotPassword ev s) = s
   \<and> loading_transitions (fst (snd (handleForgotPassword ev s))) = []"
proof -
  have e: "external_calls (fst (snd (handleForgotPassword ev s))) = []
      \<and> toasts (fst (snd (handleForgotPassword ev s))) = [Toast email_required_notification]"
    if "email (formData s) = []"
    using that by (simp add: handleForgotPassword_empty trace_simps)
  have n: "\<not> positive email_required_notification
      \<and> title email_required_notification = ''Email Required''
      \<and> positive reset_sent_notification"
    by (simp add: positive_def email_required_notification_def reset_sent_notification_def)
  have c: "external_calls (fst (snd (handleForgotPassword ev s)))
        = [ResetPassword (email (formData s))]"
    if "email (formData s) \<noteq> []"
    using that by (cases "resetPassword ev (email (formData s))")
      (simp_all add: handleForgotPassword_Returns handleForgotPassword_Throws trace_simps)
  have p: "toasts (fst (snd (handleForgotPassword ev s))) = [Toast reset_sent_notification]"
    if "email (formData s) \<noteq> []" "resetPassword ev (email (formData s)) = Returns r" "success r"
    using that by (simp add: handleForgotPassword_Returns trace_simps)
  have f: "toasts (fst (snd (handleForgotPassword ev s)))
             = [Toast (reset_failed_notification (ResetResult.error r))]"
    if "email (formData s) \<noteq> []" "resetPassword ev (email (formData s)) = Returns r" "\<not> success r"
    using that by (simp add: handleForgotPassword_Returns trace_simps)
  have g: "\<not> positive (reset_failed_notification (ResetResult.error r))
           \<and> description (reset_failed_notification (ResetResult.error r))
               = ResetResult.error r"
    by (simp add: positive_def reset_failed_notification_def)
  from e n c p f g handleForgotPassword_email_only [of s' s ev]
    handleForgotPassword_state [of ev s] handleForgotPassword_no_loading [of ev s]
  show ?thesis by blast
qed

theorem handleForgotPassword_behaviour_witness:
  "email (formData initial_state) = []
   \<and> toasts (fst (snd (handleForgotPassword accepting_env initial_state)))
       = [Toast email_required_notification]
   \<and> external_calls (fst (snd (handleForgotPassword accepting_env initial_state))) = []
   \<and> email (formData example_register) \<noteq> []
   \<and> email (formData example_login) = email (formData example_register)
   \<and> resetPassword rejecting_env (email (formData example_register))
       = Returns (ResetResult False (Some ''user not found''))
   \<and> external_calls (fst (snd (handleForgotPassword rejecting_env example_register)))
       = [ResetPassword ''a@b.c'']
   \<and> toasts (fst (snd (handleForgotPassword rejecting_env example_register)))
       = [Toast (reset_failed_notification (Some ''user not found''))]
   \<and> snd (handleForgotPassword rejecting_env example_login)
       = snd (handleForgotPassword rejecting_env example_register)
   \<and> resetPassword accepting_env (email (formData example_register))
       = Returns (ResetResult True None)
   \<and> toasts (fst (snd (handleForgotPassword accepting_env example_register)))
       = [Toast reset_sent_notification]"
proof -
  have 1: "email (formData initial_state) = []"
    "email (formData example_register) = ''a@b.c''"
    "email (formData example_login) = ''a@b.c''"
    by (simp_all add: initial_state_def example_register_def example_login_def)
  have 2: "resetPassword rejecting_env ''a@b.c'' = Returns (ResetResult False (Some ''user not found''))"
    "resetPassword accepting_env ''a@b.c'' = Returns (ResetResult True None)"
    by (simp_all add: rejecting_env_def accepting_env_def)
  show ?thesis
    using handleForgotPassword_behaviour [of initial_state accepting_env "ResetResult True None" initial_state]
      handleForgotPassword_behaviour [of example_register rejecting_env
        "ResetResult False (Some ''user not found'')" example_login]
      handleForgotPassword_behaviour [of example_register accepting_env
        "ResetResult True None" example_login]
      1 2
    by simp
qed




section \<open>handleInputChange\<close>

lemma get_set_field_same: "get_field n (set_field n v fd) = v"
  by (cases n) simp_all

lemma get_set_field_other: "f \<noteq> n \<Longrightarrow> get_field f (set_field n v fd) = get_field f fd"
  by (cases n; cases f) simp_all

lemma handleInputChange_formData:
  "formData (handleInputChange n v s) = set_field n v (formData s)"
  by (simp add: handleInputChange_def Let_def)

lemma handleInputChange_errors:
  "errors (handleInputChange n v s) =
     (if truthy (errors s n) then (errors s)(n \<mapsto> []) else errors s)"
  by (simp add: handleInputChange_def Let_def)

lemma handleInputChange_rest:
  "isLogin (handleInputChange n v s) = isLogin s
   \<and> loading (handleInputChange n v s) = loading s
   \<and> showPassword (handleInputChange n v s) = showPassword s
   \<and> showConfirmPassword (handleInputChange n v s) = showConfirmPassword s"
  by (simp add: handleInputChange_def Let_def)

lemma truthy_cleared: "truthy ((e(f \<mapsto> [])) g) = truthy ((e(f := None)) g)"
  by (simp add: truthy_def)

lemma render_errors_cleared:
  "render_errors (s\<lparr>errors := e(f \<mapsto> [])\<rparr>) = render_errors (s\<lparr>errors := e(f := None)\<rparr>)"
proof -
  have "border_class (e(f \<mapsto> [])) g = border_class (e(f := None)) g
      \<and> error_text (e(f \<mapsto> [])) g = error_text (e(f := None)) g" for g
    by (simp add: border_class_def error_text_def truthy_def)
  then show ?thesis by (simp add: render_errors_def)
qed

lemma keys_member: "(n \<in> set (keys m)) = (m n \<noteq> None)"
  by (cases n) (auto simp: keys_def)

text \<open>
  C7. A change of the field \<open>n\<close> to the value \<open>v\<close> stores \<open>v\<close> in that field and
  leaves the three other fields as they were. The error of every other field is as
  before. The error of the changed field is no longer shown afterwards when it was shown
  before, and the errors are not touched at all when it was not. The mode, the loading
  flag and the reveal flags are as before.
\<close>

theorem handleInputChange_frame:
  "get_field n (formData (handleInputChange n v s)) = v
   \<and> (\<forall>f. f \<noteq> n \<longrightarrow>
         get_field f (formData (handleInputChange n v s)) = get_field f (formData s)
         \<and> errors (handleInputChange n v s) f = errors s f)
   \<and> (truthy (errors s n) \<longrightarrow> \<not> truthy (errors (handleInputChange n v s) n))
   \<and> (\<not> truthy (errors s n) \<longrightarrow> errors (handleInputChange n v s) = errors s)
   \<and> isLogin (handleInputChange n v s) = isLogin s
   \<and> loading (handleInputChange n v s) = loading s
   \<and> showPassword (handleInputChange n v s) = showPassword s
   \<and> showConfirmPassword (handleInputChange n v s) = showConfirmPassword s"
  by (simp add: handleInputChange_formData handleInputChange_errors handleInputChange_rest
      get_set_field_same get_set_field_other truthy_def)

theorem handleInputChange_frame_witness:
  "Password \<noteq> Email
   \<and> truthy (errors (initial_state\<lparr>errors :=
        [Email \<mapsto> ''Email is required'', Password \<mapsto> ''Password is required'']\<rparr>) Email)
   \<and> email (formData (handleInputChange Email ''a'' (initial_state\<lparr>errors :=
        [Email \<mapsto> ''Email is required'', Password \<mapsto> ''Password is required'']\<rparr>))) = ''a''
   \<and> password (formData (handleInputChange Email ''a'' (initial_state\<lparr>errors :=
        [Email \<mapsto> ''Email is required'', Password \<mapsto> ''Password is required'']\<rparr>))) = []
   \<and> errors (handleInputChange Email ''a'' (initial_state\<lparr>errors :=
        [Email \<mapsto> ''Email is required'', Password \<mapsto> ''Password is required'']\<rparr>)) Password
       = Some ''Password is required''
   \<and> \<not> truthy (errors (handleInputChange Email ''a'' (initial_state\<lparr>errors :=
        [Email \<mapsto> ''Email is required'', Password \<mapsto> ''Password is required'']\<rparr>)) Email)
   \<and> \<not> truthy (errors initial_state Email)
   \<and> errors (handleInputChange Email ''a'' initial_state) = errors initial_state"
proof -
  let ?s = "initial_state\<lparr>errors :=
        [Email \<mapsto> ''Email is required'', Password \<mapsto> ''Password is required'']\<rparr>"
  have 1: "truthy (errors ?s Email)" "\<not> truthy (errors initial_state Email)"
    "errors ?s Password = Some ''Password is required''"
    "get_field Password (formData ?s) = []"
    by (simp_all add: initial_state_def truthy_def)
  have 2: "\<And>fd. get_field Email fd = email fd" "\<And>fd. get_field Password fd = password fd"
    by simp_all
  from handleInputChange_frame [of Email "''a''" ?s]
  have 3: "get_field Email (formData (handleInputChange Email ''a'' ?s)) = ''a''"
    "get_field Password (formData (handleInputChange Email ''a'' ?s)) = get_field Password (formData ?s)"
    "errors (handleInputChange Email ''a'' ?s) Password = errors ?s Password"
    "truthy (errors ?s Email) \<longrightarrow> \<not> truthy (errors (handleInputChange Email ''a'' ?s) Email)"
    by blast+
  from handleInputChange_frame [of Email "''a''" initial_state]
  have 4: "\<not> truthy (errors initial_state Email) \<longrightarrow>
      errors (handleInputChange Email ''a'' initial_state) = errors initial_state"
    by blast
  from 1 2 3 4 show ?thesis by simp
qed

text \<open>
  C10. When the changed field has an error, the change stores the empty string as its
  message: the key stays in the errors object and is among its keys. An object with a
  key mapped to the empty string and the object without that key are the same to every
  reader of the errors: to the truthiness test, to the rendered classes and messages, and
  to a later change of any field, after which the same errors are shown.
\<close>

theorem handleInputChange_clears_by_empty_string:
  "(truthy (errors s n) \<longrightarrow>
      errors (handleInputChange n v s) n = Some []
      \<and> n \<in> dom (errors (handleInputChange n v s))
      \<and> n \<in> set (keys (errors (handleInputChange n v s))))
   \<and> truthy ((e(f \<mapsto> [])) g) = truthy ((e(f := None)) g)
   \<and> render_errors (s\<lparr>errors := e(f \<mapsto> [])\<rparr>) = render_errors (s\<lparr>errors := e(f := None)\<rparr>)
   \<and> formData (handleInputChange g v (s\<lparr>errors := e(f \<mapsto> [])\<rparr>))
       = formData (handleInputChange g v (s\<lparr>errors := e(f := None)\<rparr>))
   \<and> (\<forall>h. truthy (errors (handleInputChange g v (s\<lparr>errors := e(f \<mapsto> [])\<rparr>)) h)
          = truthy (errors (handleInputChange g v (s\<lparr>errors := e(f := None)\<rparr>)) h))"
proof -
  have a: "errors (handleInputChange n v s) n = Some []
      \<and> n \<in> dom (errors (handleInputChange n v s))
      \<and> n \<in> set (keys (errors (handleInputChange n v s)))"
    if "truthy (errors s n)"
    using that by (simp add: handleInputChange_errors keys_member)
  have b: "formData (handleInputChange g v (s\<lparr>errors := e(f \<mapsto> [])\<rparr>))
       = formData (handleInputChange g v (s\<lparr>errors := e(f := None)\<rparr>))"
    by (simp add: handleInputChange_formData)
  have c: "truthy (errors (handleInputChange g v (s\<lparr>errors := e(f \<mapsto> [])\<rparr>)) h)
          = truthy (errors (handleInputChange g v (s\<lparr>errors := e(f := None)\<rparr>)) h)" for h
    by (simp add: handleInputChange_errors truthy_def)
  from a b c truthy_cleared [of e f g] render_errors_cleared [where s = s and e = e and f = f]
  show ?thesis by blast
qed

theorem handleInputChange_clears_by_empty_string_witness:
  "truthy (errors (initial_state\<lparr>errors := [Email \<mapsto> ''Email is required'']\<rparr>) Email)
   \<and> errors (handleInputChange Email ''a''
        (initial_state\<lparr>errors := [Email \<mapsto> ''Email is required'']\<rparr>)) Email = Some []
   \<and> Email \<in> set (keys (errors (handleInputChange Email ''a''
        (initial_state\<lparr>errors := [Email \<mapsto> ''Email is required'']\<rparr>))))
   \<and> render_errors (initial_state\<lparr>errors := [Email \<mapsto> []]\<rparr>) = render_errors initial_state"
proof -
  let ?s = "initial_state\<lparr>errors := [Email \<mapsto> ''Email is required'']\<rparr>"
  have 1: "truthy (errors ?s Email)"
    by (simp add: initial_state_def truthy_def)
  have 2: "initial_state\<lparr>errors := Map.empty(Email := None)\<rparr> = initial_state"
    by (simp add: initial_state_def)
  from handleInputChange_clears_by_empty_string
    [where s = ?s and n = Email and v = "''a''" and e = Map.empty and f = Email and g = Email]
  have 3: "truthy (errors ?s Email) \<longrightarrow>
      errors (handleInputChange Email ''a'' ?s) Email = Some []
      \<and> Email \<in> set (keys (errors (handleInputChange Email ''a'' ?s)))"
    by blast
  from handleInputChange_clears_by_empty_string
    [where s = initial_state and n = Email and v = "''a''" and e = Map.empty and f = Email
       and g = Email]
  have 4: "render_errors (initial_state\<lparr>errors := [Email \<mapsto> []]\<rparr>)
      = render_errors (initial_state\<lparr>errors := Map.empty(Email := None)\<rparr>)"
    by blast
  from 1 2 3 4 show ?thesis by simp
qed

section \<open>toggleForm\<close>

lemma toggleForm_toggleForm:
  "toggleForm (toggleForm s) = initial_state\<lparr>isLogin := isLogin s, loading := loading s\<rparr>"
  by (simp add: toggleForm_def initial_state_def)

text \<open>
  C8, as amended. A toggle flips the mode, empties the four fields and the errors, sets
  both reveal flags to false and leaves the loading flag as it was. Two toggles in
  succession therefore give the initial state except for the mode and the loading flag,
  which are those of the starting state; the result is the initial state exactly when
  the starting state was in login mode and not loading.
\<close>

theorem toggleForm_reset:
  "isLogin (toggleForm s) = (\<not> isLogin s)
   \<and> formData (toggleForm s) = formData initial_state
   \<and> errors (toggleForm s) = Map.empty
   \<and> showPassword (toggleForm s) = False
   \<and> showConfirmPassword (toggleForm s) = False
   \<and> loading (toggleForm s) = loading s
   \<and> toggleForm (toggleForm s) = initial_state\<lparr>isLogin := isLogin s, loading := loading s\<rparr>
   \<and> ((toggleForm (toggleForm s) = initial_state) = (isLogin s \<and> \<not> loading s))"
proof -
  have "(initial_state\<lparr>isLogin := isLogin s, loading := loading s\<rparr> = initial_state)
      = (isLogin s \<and> \<not> loading s)"
    by (auto simp: initial_state_def)
  then show ?thesis
    by (simp add: toggleForm_toggleForm) (simp add: toggleForm_def initial_state_def)
qed

theorem toggleForm_reset_witness:
  "toggleForm (toggleForm example_login) = initial_state
   \<and> formData (toggleForm (toggleForm example_register)) = formData initial_state
   \<and> errors (toggleForm (toggleForm example_register)) = Map.empty
   \<and> \<not> isLogin (toggleForm (toggleForm example_register))"
  using toggleForm_reset [of example_login] toggleForm_reset [of example_register]
    toggleForm_reset [of "toggleForm example_register"]
  by (simp add: example_login_def example_register_def initial_state_def)

text \<open>
  C8, as stated, fails: from the initial state put in registration mode, or with the
  loading flag set, two toggles do not give the initial state; and from a filled form they
  do not give back the starting state either.
\<close>

theorem toggleForm_twice_counterexample:
  "toggleForm (toggleForm (initial_state\<lparr>isLogin := False\<rparr>)) \<noteq> initial_state
   \<and> toggleForm (toggleForm (initial_state\<lparr>loading := True\<rparr>)) \<noteq> initial_state
   \<and> toggleForm (toggleForm example_login) \<noteq> example_login"
  by (simp add: toggleForm_def initial_state_def example_login_def)

end
